theory Spec2Isabelle
  imports Complex_Main
begin

section \<open>Python values shared by both training drivers\<close>

text \<open>
  The two drivers are \<^verbatim>\<open>VAEs/vq-vae/trainers/vq_vae_train.py\<close> (class
  \<^verbatim>\<open>VQVAEtrainer\<close>) and \<^verbatim>\<open>speech-synthesis/TTS/tacotron2/train.py\<close> (class
  \<^verbatim>\<open>Tacotron2Trainer\<close>). Python integers are \<open>int\<close>. Floating-point numbers are
  modelled by exact \<open>real\<close> arithmetic; the one place where the drivers can produce a
  non-finite number without raising (a NumPy value divided by zero) is kept apart as
  \<open>NonFinite\<close>. An exception is a value of \<open>py_error\<close>, returned as \<open>Inl\<close>;
  \<open>OSError\<close> stands for \<^verbatim>\<open>OSError\<close> and its subclasses (\<^verbatim>\<open>FileExistsError\<close>,
  \<^verbatim>\<open>FileNotFoundError\<close>, \<^verbatim>\<open>NotADirectoryError\<close>, \<^verbatim>\<open>IsADirectoryError\<close>).
\<close>

datatype py_error =
    ZeroDivisionError
  | AttributeError
  | UnboundLocalError
  | KeyError
  | AssertionError
  | OSError

datatype np_value = Finite real | NonFinite

text \<open>\<^verbatim>\<open>str(n)\<close> for a Python integer: the decimal digits, with a minus sign.\<close>

definition digit_char :: "nat \<Rightarrow> char" where
  "digit_char d = ''0123456789'' ! d"

function str_nat :: "nat \<Rightarrow> string" where
  "str_nat n = (if n < 10 then [digit_char n] else str_nat (n div 10) @ [digit_char (n mod 10)])"
  by pat_completeness auto
termination
  by (relation "measure (\<lambda>n. n)") auto

definition str_int :: "int \<Rightarrow> string" where
  "str_int i = (if i < 0 then CHR ''-'' # str_nat (nat (- i)) else str_nat (nat i))"

text \<open>
  \<^verbatim>\<open>os.path.join(a, b)\<close> on POSIX: an absolute \<open>b\<close> replaces \<open>a\<close>; otherwise a
  separator is inserted unless \<open>a\<close> is empty or already ends with one.
\<close>

definition starts_with_sep :: "string \<Rightarrow> bool" where
  "starts_with_sep b = (case b of [] \<Rightarrow> False | c # _ \<Rightarrow> c = CHR ''/'')"

definition ends_with_sep :: "string \<Rightarrow> bool" where
  "ends_with_sep a = (case rev a of [] \<Rightarrow> False | c # _ \<Rightarrow> c = CHR ''/'')"

definition os_path_join :: "string \<Rightarrow> string \<Rightarrow> string" where
  "os_path_join a b =
     (if starts_with_sep b then b
      else if a = [] \<or> ends_with_sep a then a @ b
      else a @ ''/'' @ b)"

section \<open>The VQ-VAE driver: \<^verbatim>\<open>VQVAEtrainer\<close>\<close>

subsection \<open>Collaborators and construction\<close>

text \<open>
  The data iterators expose \<^verbatim>\<open>size\<close> and \<^verbatim>\<open>batch_size\<close>, the communicator
  \<^verbatim>\<open>n_procs\<close> and \<^verbatim>\<open>rank\<close>; \<open>config\<close> holds the entries of the configuration
  dictionary that \<^verbatim>\<open>__init__\<close> reads.
\<close>

record data_loader =
  dl_size :: int
  dl_batch_size :: int

record communicator =
  comm_n_procs :: int
  comm_rank :: int

record config =
  cfg_weight_decay :: real
  cfg_learning_rate_decay_epochs :: "int list"
  cfg_learning_rate_decay_factor :: real
  cfg_monitor_path :: string
  cfg_train_recon :: string
  cfg_val_recon :: string
  cfg_dataset_name :: string

text \<open>
  The attributes of a constructed trainer. \<^verbatim>\<open>val_iterations_per_epoch\<close> is assigned
  only when the dataset is not \<^verbatim>\<open>'imagenet'\<close>, so it is optional. The monitors, the
  model, the solver object and \<^verbatim>\<open>data_variance\<close> are opaque handles of the framework
  and are not fields here; what the driver does with them appears as calls below.
\<close>

record trainer =
  comm :: communicator
  iterations_per_epoch :: int
  weight_decay :: real
  learning_rate_decay_epochs :: "int list"
  learning_rate_decay_factor :: real
  train_recon_path :: string
  val_recon_path :: string
  dataset_name :: string
  val_iterations_per_epoch :: "int option"

text \<open>
  \<^verbatim>\<open>int(np.ceil(size / batch_size / n_procs))\<close>: true division of Python integers
  raises \<^verbatim>\<open>ZeroDivisionError\<close> on a zero divisor.
\<close>

definition count_iterations :: "int \<Rightarrow> int \<Rightarrow> int \<Rightarrow> py_error + int" where
  "count_iterations sz bs n =
     (if bs = 0 \<or> n = 0 then Inl ZeroDivisionError
      else Inr \<lceil>real_of_int sz / real_of_int bs / real_of_int n\<rceil>)"

definition make_trainer :: "int \<Rightarrow> int option \<Rightarrow> config \<Rightarrow> communicator \<Rightarrow> trainer" where
  "make_trainer n vn cfg c =
     \<lparr> comm = c,
       iterations_per_epoch = n,
       weight_decay = cfg_weight_decay cfg,
       learning_rate_decay_epochs = cfg_learning_rate_decay_epochs cfg,
       learning_rate_decay_factor = cfg_learning_rate_decay_factor cfg,
       train_recon_path = os_path_join (cfg_monitor_path cfg) (cfg_train_recon cfg),
       val_recon_path = os_path_join (cfg_monitor_path cfg) (cfg_val_recon cfg),
       dataset_name = cfg_dataset_name cfg,
       val_iterations_per_epoch = vn \<rparr>"

text \<open>
  \<^verbatim>\<open>__init__\<close>. The two reconstruction directories it creates and the computation of
  \<^verbatim>\<open>data_variance\<close> have no part in what follows and are left out.
\<close>

definition VQVAEtrainer_init ::
  "data_loader \<Rightarrow> data_loader \<Rightarrow> config \<Rightarrow> communicator \<Rightarrow> py_error + trainer" where
  "VQVAEtrainer_init dl vdl cfg c =
     (case count_iterations (dl_size dl) (dl_batch_size dl) (comm_n_procs c) of
        Inl e \<Rightarrow> Inl e
      | Inr n \<Rightarrow>
          if cfg_dataset_name cfg \<noteq> ''imagenet'' then
            (case count_iterations (dl_size vdl) (dl_batch_size vdl) (comm_n_procs c) of
               Inl e \<Rightarrow> Inl e
             | Inr vn \<Rightarrow> Inr (make_trainer n (Some vn) cfg c))
          else Inr (make_trainer n None cfg c))"

subsection \<open>Input normalisation: \<^verbatim>\<open>convert_to_var\<close>\<close>

text \<open>
  A batch is the list of its pixel values. \<^verbatim>\<open>np.all(img < 1)\<close> is \<open>list_all\<close> of a
  strict comparison (true of the empty batch); the division and the rescaling act on
  every element.
\<close>

definition below_one :: "real \<Rightarrow> bool" where
  "below_one x = (x < 1)"

definition div255 :: "real \<Rightarrow> real" where
  "div255 x = x / 255"

definition rescale :: "real \<Rightarrow> real" where
  "rescale x = (x - 0.5) / 0.5"

definition convert_to_var :: "real list \<Rightarrow> real list" where
  "convert_to_var img =
     (let img1 = (if \<not> list_all below_one img then map div255 img else img)
      in map rescale img1)"

subsection \<open>The epoch loops: \<^verbatim>\<open>train\<close> and \<^verbatim>\<open>validate\<close>\<close>

text \<open>
  The calls the driver makes on its collaborators, in the order it makes them.
  \<open>ModelForward test\<close> is the model call inside \<^verbatim>\<open>compute_loss\<close>, \<open>SaveImage path\<close>
  the figure written by \<^verbatim>\<open>save_image\<close>, \<open>CommAllReduceGrads division inplace\<close> the
  all-reduce of the gradients of all of \<^verbatim>\<open>nn.get_parameters()\<close> with its two flags.
\<close>

datatype vq_call =
    DataLoaderNext
  | ValDataLoaderNext
  | ModelForward bool
  | SaveImage string
  | SolverSetLearningRate real
  | SolverSetParameters
  | SolverZeroGrad
  | LossBackward
  | CommAllReduceGrads bool bool
  | SolverWeightDecay real
  | SolverUpdate
  | MonitorTrainLossAdd int np_value
  | MonitorValLossAdd int np_value

text \<open>
  What the framework hands back to the driver during an epoch: the first component of
  the \<open>i\<close>-th \<^verbatim>\<open>next()\<close> of either iterator, and the value \<^verbatim>\<open>loss.d\<close> that
  \<^verbatim>\<open>compute_loss(img_var, test)\<close> yields at iteration \<open>i\<close>.
\<close>

record vq_env =
  data_next :: "nat \<Rightarrow> real list"
  val_data_next :: "nat \<Rightarrow> real list"
  loss_d :: "bool \<Rightarrow> nat \<Rightarrow> real list \<Rightarrow> real"

record vq_state =
  solver_learning_rate :: real
  calls :: "vq_call list"

definition emit :: "vq_call list \<Rightarrow> vq_state \<Rightarrow> vq_state" where
  "emit cs s = s\<lparr>calls := calls s @ cs\<rparr>"

definition set_learning_rate :: "real \<Rightarrow> vq_state \<Rightarrow> vq_state" where
  "set_learning_rate v s = emit [SolverSetLearningRate v] (s\<lparr>solver_learning_rate := v\<rparr>)"

definition epoch_png :: "int \<Rightarrow> string" where
  "epoch_png epoch = ''epoch_'' @ str_int epoch @ ''.png''"

definition log_image :: "trainer \<Rightarrow> int \<Rightarrow> bool \<Rightarrow> vq_state \<Rightarrow> vq_state" where
  "log_image t epoch is_train s =
     (if is_train then emit [SaveImage (os_path_join (train_recon_path t) (epoch_png epoch))] s
      else emit [SaveImage (os_path_join (val_recon_path t) (epoch_png epoch))] s)"

definition log_loss :: "int \<Rightarrow> np_value \<Rightarrow> bool \<Rightarrow> vq_state \<Rightarrow> vq_state" where
  "log_loss epoch v is_train s =
     (if is_train then emit [MonitorTrainLossAdd epoch v] s
      else emit [MonitorValLossAdd epoch v] s)"

definition input_var :: "trainer \<Rightarrow> real list \<Rightarrow> real list" where
  "input_var t data0 = (if dataset_name t = ''imagenet'' then data0 else convert_to_var data0)"

text \<open>One pass through the body of the training loop (lines 91 to 113).\<close>

definition train_batch :: "trainer \<Rightarrow> int \<Rightarrow> vq_env \<Rightarrow> nat \<Rightarrow> real \<times> vq_state \<Rightarrow> real \<times> vq_state" where
  "train_batch t epoch env i acc =
     (case acc of (epoch_loss, s) \<Rightarrow>
        let s1 = emit [DataLoaderNext] s;
            img_var = input_var t (data_next env i);
            s2 = emit [ModelForward False] s1;
            loss = loss_d env False i img_var;
            s3 = (if i = 0 then log_image t epoch True s2 else s2);
            s4 = emit [SolverSetParameters, SolverZeroGrad, LossBackward,
                       CommAllReduceGrads False True,
                       SolverWeightDecay (weight_decay t), SolverUpdate] s3
        in (epoch_loss + loss, s4))"

text \<open>
  \<^verbatim>\<open>epoch_loss / self.iterations_per_epoch\<close>. With no iteration run \<open>epoch_loss\<close> is
  still the Python integer 0 and a zero divisor raises; after an iteration it is a NumPy
  value and a zero divisor gives a non-finite number.
\<close>

definition epoch_average :: "nat \<Rightarrow> real \<Rightarrow> int \<Rightarrow> py_error + np_value" where
  "epoch_average n epoch_loss d =
     (if d = 0 then (if n = 0 then Inl ZeroDivisionError else Inr NonFinite)
      else Inr (Finite (epoch_loss / real_of_int d)))"

text \<open>Lines 87 and 88: the decay test at the start of \<^verbatim>\<open>train\<close>.\<close>

definition decay_learning_rate :: "trainer \<Rightarrow> int \<Rightarrow> vq_state \<Rightarrow> vq_state" where
  "decay_learning_rate t epoch s =
     (if epoch \<in> set (learning_rate_decay_epochs t)
      then set_learning_rate (solver_learning_rate s * learning_rate_decay_factor t) s
      else s)"

text \<open>
  The loop runs over \<^verbatim>\<open>trange(self.iterations_per_epoch // self.comm.n_procs)\<close>:
  floor division, which raises on a zero divisor, and an empty range for a count that
  is not positive. The sum is divided by \<^verbatim>\<open>self.iterations_per_epoch\<close>.
\<close>

definition train :: "trainer \<Rightarrow> int \<Rightarrow> vq_env \<Rightarrow> vq_state \<Rightarrow> py_error + vq_state" where
  "train t epoch env s =
     (if comm_n_procs (comm t) = 0 then Inl ZeroDivisionError
      else
        let n = nat (iterations_per_epoch t div comm_n_procs (comm t));
            s1 = decay_learning_rate t epoch s;
            r = fold (train_batch t epoch env) [0..<n] (0, s1)
        in (case epoch_average n (fst r) (iterations_per_epoch t) of
              Inl e \<Rightarrow> Inl e
            | Inr a \<Rightarrow> Inr (log_loss epoch a True (snd r))))"

text \<open>One pass through the body of the validation loop (lines 123 to 132).\<close>

definition validate_batch :: "trainer \<Rightarrow> vq_env \<Rightarrow> nat \<Rightarrow> real \<times> vq_state \<Rightarrow> real \<times> vq_state" where
  "validate_batch t env i acc =
     (case acc of (epoch_loss, s) \<Rightarrow>
        let s1 = emit [ValDataLoaderNext] s;
            img_var = input_var t (val_data_next env i);
            s2 = emit [ModelForward True] s1;
            loss = loss_d env True i img_var
        in (epoch_loss + loss, s2))"

text \<open>
  \<^verbatim>\<open>validate\<close> reads \<^verbatim>\<open>self.val_iterations_per_epoch\<close> first (absent for
  \<^verbatim>\<open>'imagenet'\<close>), divides by \<^verbatim>\<open>self.iterations_per_epoch\<close>, and after logging the
  loss reads \<^verbatim>\<open>img_recon\<close>, which is unbound when the loop body never ran.
\<close>

definition validate :: "trainer \<Rightarrow> int \<Rightarrow> vq_env \<Rightarrow> vq_state \<Rightarrow> py_error + vq_state" where
  "validate t epoch env s =
     (case val_iterations_per_epoch t of
        None \<Rightarrow> Inl AttributeError
      | Some v \<Rightarrow>
          let n = nat v;
              r = fold (validate_batch t env) [0..<n] (0, s)
          in (case epoch_average n (fst r) (iterations_per_epoch t) of
                Inl e \<Rightarrow> Inl e
              | Inr a \<Rightarrow>
                  if n = 0 then Inl UnboundLocalError
                  else Inr (log_image t epoch False (log_loss epoch a False (snd r)))))"

subsection \<open>Checkpoints: \<^verbatim>\<open>save_checkpoint\<close> and \<^verbatim>\<open>load_checkpoint\<close>\<close>

text \<open>
  The two methods touch the process-wide parameter store, the solver's states and the
  file system. The file system is a tree without symbolic links: a location is the list
  of names from the root, and holds a directory, a parameter file or a solver-state
  file. The root is a directory; \<open>cwd\<close> is the working directory, from which relative
  paths start.
\<close>

type_synonym location = "string list"

datatype ('p, 's) node = Directory | ParamsH5 'p | SolverH5 's

record ('p, 's) store =
  parameters :: 'p
  solver_states :: 's
  cwd :: location
  fs :: "location \<rightharpoonup> ('p, 's) node"

definition is_dir :: "(location \<rightharpoonup> ('p, 's) node) \<Rightarrow> location \<Rightarrow> bool" where
  "is_dir f loc = (loc = [] \<or> f loc = Some Directory)"

text \<open>The components of a path, as \<^verbatim>\<open>p.split('/')\<close> gives them.\<close>

fun split_sep :: "string \<Rightarrow> string list" where
  "split_sep [] = [[]]"
| "split_sep (c # cs) =
     (if c = CHR ''/'' then [] # split_sep cs
      else (case split_sep cs of [] \<Rightarrow> [[c]] | x # xs \<Rightarrow> (c # x) # xs))"

text \<open>
  Path resolution. Every component is looked up in a directory; an empty component and
  \<^verbatim>\<open>.\<close> stay there, \<^verbatim>\<open>..\<close> goes to the parent. The location reached by the last
  component need not exist.
\<close>

fun walk :: "(location \<rightharpoonup> ('p, 's) node) \<Rightarrow> location \<Rightarrow> string list \<Rightarrow> py_error + location" where
  "walk f cur [] = Inr cur"
| "walk f cur (c # cs) =
     (if \<not> is_dir f cur then Inl OSError
      else if c = [] \<or> c = ''.'' then walk f cur cs
      else if c = ''..'' then walk f (butlast cur) cs
      else walk f (cur @ [c]) cs)"

text \<open>
  \<^verbatim>\<open>os.makedirs(name, exist_ok=True)\<close>: along the path every missing directory is
  created and every existing one is entered; a regular file anywhere on the path, the
  last component included, raises.
\<close>

fun mkwalk ::
  "(location \<rightharpoonup> ('p, 's) node) \<Rightarrow> location \<Rightarrow> string list
     \<Rightarrow> py_error + (location \<rightharpoonup> ('p, 's) node)" where
  "mkwalk f cur [] = Inr f"
| "mkwalk f cur (c # cs) =
     (if \<not> is_dir f cur then Inl OSError
      else if c = [] \<or> c = ''.'' then mkwalk f cur cs
      else if c = ''..'' then mkwalk f (butlast cur) cs
      else (case f (cur @ [c]) of
              None \<Rightarrow> mkwalk (f(cur @ [c] \<mapsto> Directory)) (cur @ [c]) cs
            | Some Directory \<Rightarrow> mkwalk f (cur @ [c]) cs
            | Some (ParamsH5 _) \<Rightarrow> Inl OSError
            | Some (SolverH5 _) \<Rightarrow> Inl OSError))"

definition start_dir :: "('p, 's) store \<Rightarrow> string \<Rightarrow> location" where
  "start_dir w p = (if starts_with_sep p then [] else cwd w)"

definition resolve :: "('p, 's) store \<Rightarrow> string \<Rightarrow> py_error + location" where
  "resolve w p = (if p = [] then Inl OSError else walk (fs w) (start_dir w p) (split_sep p))"

definition makedirs_exist_ok :: "string \<Rightarrow> ('p, 's) store \<Rightarrow> py_error + ('p, 's) store" where
  "makedirs_exist_ok p w =
     (if p = [] then Inl OSError
      else (case mkwalk (fs w) (start_dir w p) (split_sep p) of
              Inl e \<Rightarrow> Inl e
            | Inr f \<Rightarrow> Inr (w\<lparr>fs := f\<rparr>)))"

text \<open>
  Modelled from the spec: \<^verbatim>\<open>nn.save_parameters\<close> is a function of the framework and
  not in the sources. Saving serialises all current parameter tensors into the file
  named; the file's directory must exist and the name must not be a directory.
\<close>

definition save_parameters :: "string \<Rightarrow> ('p, 's) store \<Rightarrow> py_error + ('p, 's) store" where
  "save_parameters p w =
     (case resolve w p of
        Inl e \<Rightarrow> Inl e
      | Inr loc \<Rightarrow>
          if is_dir (fs w) loc then Inl OSError
          else Inr (w\<lparr>fs := (fs w)(loc \<mapsto> ParamsH5 (parameters w))\<rparr>))"

text \<open>
  Modelled from the spec: \<^verbatim>\<open>solver.save_states\<close> is a function of the framework and
  not in the sources. Saving serialises all of the optimizer's internal state into the
  file named, a second file.
\<close>

definition save_states :: "string \<Rightarrow> ('p, 's) store \<Rightarrow> py_error + ('p, 's) store" where
  "save_states p w =
     (case resolve w p of
        Inl e \<Rightarrow> Inl e
      | Inr loc \<Rightarrow>
          if is_dir (fs w) loc then Inl OSError
          else Inr (w\<lparr>fs := (fs w)(loc \<mapsto> SolverH5 (solver_states w))\<rparr>))"



text \<open>Sequencing of steps that may raise: the first exception ends the method.\<close>

definition bind_err :: "'e + 'a \<Rightarrow> ('a \<Rightarrow> 'e + 'b) \<Rightarrow> 'e + 'b" where
  "bind_err r f = (case r of Inl e \<Rightarrow> Inl e | Inr x \<Rightarrow> f x)"

definition checkpoint_dir :: "string \<Rightarrow> int \<Rightarrow> string" where
  "checkpoint_dir path epoch = os_path_join path (''epoch_'' @ str_int epoch)"

definition save_checkpoint :: "string \<Rightarrow> int \<Rightarrow> ('p, 's) store \<Rightarrow> py_error + ('p, 's) store" where
  "save_checkpoint path epoch w =
     (let file_name = checkpoint_dir path epoch
      in bind_err (makedirs_exist_ok file_name w) (\<lambda>w1.
         bind_err (save_parameters (os_path_join file_name ''params.h5'') w1) (\<lambda>w2.
         save_states (os_path_join file_name ''solver.h5'') w2)))"


section \<open>The Tacotron2 driver: \<^verbatim>\<open>Tacotron2Trainer\<close>\<close>

subsection \<open>Hyper-parameters, graph handles and state\<close>

record hparams =
  hp_batch_size :: int
  hp_text_len :: int
  hp_mel_len :: int
  hp_n_mels :: int
  hp_r :: int
  hp_comm :: communicator
  hp_epochs_per_checkpoint :: int
  hp_output_path :: string

text \<open>
  A handle of the computation graph, as \<^verbatim>\<open>update_graph\<close> builds it. \<open>Variable n shape\<close>
  is the \<open>n\<close>-th \<^verbatim>\<open>nn.Variable(shape)\<close> created in the call; \<open>ModelOutput k training\<close>
  is the \<open>k\<close>-th result of \<^verbatim>\<open>self.model(x_txt, x_mel)\<close>, built while
  \<^verbatim>\<open>self.model.training\<close> had the given value; \<open>Persistent\<close> is
  \<^verbatim>\<open>.apply(persistent=True)\<close>.
\<close>

datatype var =
    Variable nat "int list"
  | ModelOutput nat bool var var
  | Persistent var
  | Mean var
  | SquaredError var var
  | SigmoidCrossEntropy var var
  | Add var var

definition criteria :: "var \<Rightarrow> var \<Rightarrow> var" where
  "criteria x t = Mean (SquaredError x t)"

text \<open>
  The calls of the batch steps and of the epoch callback. \<open>CommAllReduceTrainerGrads\<close>
  is the all-reduce of \<^verbatim>\<open>self._grads\<close>, \<open>CommAllReduceLoss\<close> that of
  \<^verbatim>\<open>[self.loss]\<close>, each with its \<^verbatim>\<open>division\<close> and \<^verbatim>\<open>inplace\<close> flags;
  \<open>MkdirEpochOutput\<close>, \<open>SaveFigure\<close> and \<open>ModelSaveParameters\<close> carry the epoch
  that names the output directory.
\<close>

datatype tts_call =
    OptimizerZeroGrad
  | StreamSynchronize
  | DataNext string
  | Forward var
  | Backward var
  | MonitorUpdate string real int
  | CommAllReduceTrainerGrads bool bool
  | CommAllReduceLoss bool bool
  | AddStreamEvent
  | OptimizerUpdate
  | MonitorInfo np_value
  | MkdirEpochOutput int
  | SaveFigure int string
  | ModelSaveParameters int

text \<open>
  The trainer's mutable attributes: \<^verbatim>\<open>self.model.training\<close>,
  \<^verbatim>\<open>self.placeholder\<close>, the one-element accumulator \<^verbatim>\<open>self.loss\<close>,
  \<^verbatim>\<open>self.cur_epoch\<close>, and the calls made so far.
\<close>

record tts_state =
  model_training :: bool
  placeholder :: "string \<rightharpoonup> (string \<rightharpoonup> var)"
  loss_data :: real
  cur_epoch :: int
  tts_calls :: "tts_call list"

definition tts_emit :: "tts_call list \<Rightarrow> tts_state \<Rightarrow> tts_state" where
  "tts_emit cs s = s\<lparr>tts_calls := tts_calls s @ cs\<rparr>"

definition lookup :: "('k \<rightharpoonup> 'v) \<Rightarrow> 'k \<Rightarrow> py_error + 'v" where
  "lookup m k = (case m k of None \<Rightarrow> Inl KeyError | Some v \<Rightarrow> Inr v)"

subsection \<open>\<^verbatim>\<open>update_graph\<close>\<close>

definition graph_handles :: "hparams \<Rightarrow> bool \<Rightarrow> (string \<times> var) list" where
  "graph_handles hp training =
     (let x_txt = Variable 0 [hp_batch_size hp, hp_text_len hp];
          x_mel = Variable 1 [hp_batch_size hp, hp_mel_len hp, hp_n_mels hp * hp_r hp];
          x_gat = Variable 2 [hp_batch_size hp, hp_mel_len hp];
          o_mel = Persistent (ModelOutput 0 training x_txt x_mel);
          o_mel_p = Persistent (ModelOutput 1 training x_txt x_mel);
          o_gat = Persistent (ModelOutput 2 training x_txt x_mel);
          o_att = Persistent (ModelOutput 3 training x_txt x_mel);
          l_mel = Persistent (Add (criteria o_mel x_mel) (criteria o_mel_p x_mel));
          l_gat = Persistent (Mean (SigmoidCrossEntropy o_gat x_gat));
          l_net = Persistent (Add l_mel l_gat)
      in [(''x_mel'', x_mel), (''x_gat'', x_gat), (''x_txt'', x_txt),
          (''o_mel'', o_mel), (''o_mel_p'', o_mel_p), (''o_gat'', o_gat), (''o_att'', o_att),
          (''l_mel'', l_mel), (''l_gat'', l_gat), (''l_net'', l_net)])"

definition update_graph :: "hparams \<Rightarrow> string \<Rightarrow> tts_state \<Rightarrow> py_error + tts_state" where
  "update_graph hp key s =
     (if \<not> (key = ''train'' \<or> key = ''valid'') then Inl AssertionError
      else
        let training = (key \<noteq> ''valid'');
            s1 = s\<lparr>model_training := training\<rparr>
        in Inr (s1\<lparr>placeholder := (placeholder s1)(key \<mapsto> map_of (graph_handles hp training))\<rparr>))"

subsection \<open>\<^verbatim>\<open>train_on_batch\<close>, \<^verbatim>\<open>valid_on_batch\<close>, \<^verbatim>\<open>callback_on_epoch_end\<close>\<close>

text \<open>
  The values the framework computes for a batch and the driver reads back:
  \<^verbatim>\<open>p['l_mel'].d\<close>, \<^verbatim>\<open>p['l_gat'].d\<close> and \<^verbatim>\<open>p['l_net'].d\<close> after the forward pass.
\<close>

record batch_values =
  l_mel_d :: real
  l_gat_d :: real
  l_net_d :: real

definition multi_worker :: "hparams \<Rightarrow> bool" where
  "multi_worker hp = (comm_n_procs (hp_comm hp) > 1)"

definition train_on_batch :: "hparams \<Rightarrow> batch_values \<Rightarrow> tts_state \<Rightarrow> py_error + tts_state" where
  "train_on_batch hp b s =
     bind_err (lookup (placeholder s) ''train'') (\<lambda>p.
     bind_err (lookup p ''x_mel'') (\<lambda>_.
     bind_err (lookup p ''x_txt'') (\<lambda>_.
     bind_err (lookup p ''x_gat'') (\<lambda>_.
     bind_err (lookup p ''l_net'') (\<lambda>l_net.
     bind_err (lookup p ''l_mel'') (\<lambda>_.
     bind_err (lookup p ''l_gat'') (\<lambda>_.
       Inr (tts_emit
             ([OptimizerZeroGrad]
              @ (if multi_worker hp then [StreamSynchronize] else [])
              @ [DataNext ''train'', Forward l_net, Backward l_net,
                 MonitorUpdate ''train/l_mel'' (l_mel_d b) (hp_batch_size hp),
                 MonitorUpdate ''train/l_gat'' (l_gat_d b) (hp_batch_size hp),
                 MonitorUpdate ''train/l_net'' (l_net_d b) (hp_batch_size hp)]
              @ (if multi_worker hp
                 then [CommAllReduceTrainerGrads True False, AddStreamEvent] else [])
              @ [OptimizerUpdate]) s))))))))"

definition valid_on_batch :: "hparams \<Rightarrow> batch_values \<Rightarrow> tts_state \<Rightarrow> py_error + tts_state" where
  "valid_on_batch hp b s =
     bind_err (lookup (placeholder s) ''valid'') (\<lambda>p.
     bind_err (lookup p ''x_mel'') (\<lambda>_.
     bind_err (lookup p ''x_txt'') (\<lambda>_.
     bind_err (lookup p ''x_gat'') (\<lambda>_.
     bind_err (lookup p ''l_net'') (\<lambda>l_net.
     bind_err (lookup p ''l_mel'') (\<lambda>_.
     bind_err (lookup p ''l_gat'') (\<lambda>_.
       Inr (tts_emit
             ((if multi_worker hp then [StreamSynchronize] else [])
              @ [DataNext ''valid'', Forward l_net,
                 MonitorUpdate ''valid/l_mel'' (l_mel_d b) (hp_batch_size hp),
                 MonitorUpdate ''valid/l_gat'' (l_gat_d b) (hp_batch_size hp),
                 MonitorUpdate ''valid/l_net'' (l_net_d b) (hp_batch_size hp)])
             (s\<lparr>loss_data := loss_data s + l_net_d b * real_of_int (hp_batch_size hp)\<rparr>)))))))))"

text \<open>
  The communicator's all-reduce on one number: every worker ends with the sum of all
  workers' values, divided by the number of workers when \<^verbatim>\<open>division\<close> is set.
  \<open>peers\<close> are the values the other workers hold.
\<close>

definition all_reduce :: "bool \<Rightarrow> int \<Rightarrow> real \<Rightarrow> real list \<Rightarrow> real" where
  "all_reduce division n own peers =
     (let total = own + sum_list peers
      in if division then total / real_of_int n else total)"

text \<open>
  \<^verbatim>\<open>self.loss.data /= size\<close> on an array: a zero divisor gives a non-finite entry, not
  an exception.
\<close>

definition array_div :: "real \<Rightarrow> int \<Rightarrow> np_value" where
  "array_div x d = (if d = 0 then NonFinite else Finite (x / real_of_int d))"

definition reduce_loss :: "hparams \<Rightarrow> real list \<Rightarrow> tts_state \<Rightarrow> tts_state" where
  "reduce_loss hp peers s =
     (if multi_worker hp
      then tts_emit [CommAllReduceLoss True False]
             (s\<lparr>loss_data := all_reduce True (comm_n_procs (hp_comm hp)) (loss_data s) peers\<rparr>)
      else s)"

definition write_outputs :: "hparams \<Rightarrow> np_value \<Rightarrow> tts_state \<Rightarrow> py_error + tts_state" where
  "write_outputs hp v s =
     bind_err (lookup (placeholder s) ''train'') (\<lambda>p.
       let s1 = tts_emit [MonitorInfo v] s
       in if hp_epochs_per_checkpoint hp = 0 then Inl ZeroDivisionError
          else if cur_epoch s mod hp_epochs_per_checkpoint hp = 0 then
            bind_err (lookup p ''o_att'') (\<lambda>o_att.
            bind_err (lookup p ''o_mel'') (\<lambda>o_mel.
              Inr (tts_emit
                    [MkdirEpochOutput (cur_epoch s),
                     Forward o_att, SaveFigure (cur_epoch s) ''o_att.png'',
                     Forward o_mel, SaveFigure (cur_epoch s) ''o_mel.png'',
                     ModelSaveParameters (cur_epoch s)] s1)))
          else Inr s1)"

definition callback_on_epoch_end ::
  "hparams \<Rightarrow> data_loader \<Rightarrow> real list \<Rightarrow> tts_state \<Rightarrow> py_error + tts_state" where
  "callback_on_epoch_end hp valid_dl peers s =
     (let s1 = reduce_loss hp peers s;
          v = array_div (loss_data s1) (dl_size valid_dl)
      in bind_err (if comm_rank (hp_comm hp) = 0 then write_outputs hp v s1 else Inr s1) (\<lambda>s2.
           Inr (s2\<lparr>loss_data := 0\<rparr>)))"

section \<open>Observations on runs\<close>

text \<open>
  Names for what the properties below speak about: the loss value and the calls of the
  \<open>i\<close>-th pass through either loop of the VQ-VAE driver, the arithmetic mean, and the
  classes of calls that the properties count.
\<close>

definition train_loss_at :: "trainer \<Rightarrow> vq_env \<Rightarrow> nat \<Rightarrow> real" where
  "train_loss_at t env i = loss_d env False i (input_var t (data_next env i))"

definition val_loss_at :: "trainer \<Rightarrow> vq_env \<Rightarrow> nat \<Rightarrow> real" where
  "val_loss_at t env i = loss_d env True i (input_var t (val_data_next env i))"

definition train_calls_at :: "trainer \<Rightarrow> int \<Rightarrow> nat \<Rightarrow> vq_call list" where
  "train_calls_at t epoch i =
     [DataLoaderNext, ModelForward False]
     @ (if i = 0 then [SaveImage (os_path_join (train_recon_path t) (epoch_png epoch))] else [])
     @ [SolverSetParameters, SolverZeroGrad, LossBackward, CommAllReduceGrads False True,
        SolverWeightDecay (weight_decay t), SolverUpdate]"

text \<open>The calls of one \<^verbatim>\<open>train_on_batch\<close>, given the handle bound to \<^verbatim>\<open>l_net\<close>.\<close>

definition train_on_batch_calls :: "hparams \<Rightarrow> batch_values \<Rightarrow> var \<Rightarrow> tts_call list" where
  "train_on_batch_calls hp b l_net =
     [OptimizerZeroGrad]
     @ (if multi_worker hp then [StreamSynchronize] else [])
     @ [DataNext ''train'', Forward l_net, Backward l_net,
        MonitorUpdate ''train/l_mel'' (l_mel_d b) (hp_batch_size hp),
        MonitorUpdate ''train/l_gat'' (l_gat_d b) (hp_batch_size hp),
        MonitorUpdate ''train/l_net'' (l_net_d b) (hp_batch_size hp)]
     @ (if multi_worker hp then [CommAllReduceTrainerGrads True False, AddStreamEvent] else [])
     @ [OptimizerUpdate]"

text \<open>The calls recorded in the state a step returns; none when it raised.\<close>

definition result_calls :: "py_error + tts_state \<Rightarrow> tts_call list" where
  "result_calls r = (case r of Inl _ \<Rightarrow> [] | Inr s \<Rightarrow> tts_calls s)"


definition arithmetic_mean :: "real list \<Rightarrow> real" where
  "arithmetic_mean xs = sum_list xs / real (length xs)"

definition vq_grad_reduce :: "vq_call \<Rightarrow> bool" where
  "vq_grad_reduce c = (case c of CommAllReduceGrads _ _ \<Rightarrow> True | _ \<Rightarrow> False)"

definition vq_reduce_or_update :: "vq_call \<Rightarrow> bool" where
  "vq_reduce_or_update c = (vq_grad_reduce c \<or> c = SolverUpdate)"

text \<open>Calls that write parameters, gradients or solver state.\<close>

definition vq_writes_state :: "vq_call \<Rightarrow> bool" where
  "vq_writes_state c =
     (case c of
        SolverSetLearningRate _ \<Rightarrow> True
      | SolverSetParameters \<Rightarrow> True
      | SolverZeroGrad \<Rightarrow> True
      | LossBackward \<Rightarrow> True
      | CommAllReduceGrads _ _ \<Rightarrow> True
      | SolverWeightDecay _ \<Rightarrow> True
      | SolverUpdate \<Rightarrow> True
      | _ \<Rightarrow> False)"

definition tts_grad_reduce :: "tts_call \<Rightarrow> bool" where
  "tts_grad_reduce c = (case c of CommAllReduceTrainerGrads _ _ \<Rightarrow> True | _ \<Rightarrow> False)"

definition tts_reduce_or_update :: "tts_call \<Rightarrow> bool" where
  "tts_reduce_or_update c = (tts_grad_reduce c \<or> c = OptimizerUpdate)"

definition tts_writes_state :: "tts_call \<Rightarrow> bool" where
  "tts_writes_state c =
     (case c of
        OptimizerZeroGrad \<Rightarrow> True
      | Backward _ \<Rightarrow> True
      | CommAllReduceTrainerGrads _ _ \<Rightarrow> True
      | OptimizerUpdate \<Rightarrow> True
      | _ \<Rightarrow> False)"

definition in_unit_interval :: "real \<Rightarrow> bool" where
  "in_unit_interval x = (0 \<le> x \<and> x \<le> 1)"

definition in_byte_range :: "real \<Rightarrow> bool" where
  "in_byte_range x = (0 \<le> x \<and> x \<le> 255)"

definition in_signed_unit :: "real \<Rightarrow> bool" where
  "in_signed_unit y = (- 1 \<le> y \<and> y \<le> 1)"

subsection \<open>Concrete inputs\<close>

definition demo_config :: config where
  "demo_config =
     \<lparr> cfg_weight_decay = 0,
       cfg_learning_rate_decay_epochs = [2],
       cfg_learning_rate_decay_factor = 1 / 2,
       cfg_monitor_path = ''m'',
       cfg_train_recon = ''tr'',
       cfg_val_recon = ''va'',
       cfg_dataset_name = ''mnist'' \<rparr>"

text \<open>Every batch is one black pixel and every batch loss is 1.\<close>

definition demo_env :: vq_env where
  "demo_env = \<lparr> data_next = (\<lambda>i. [0]), val_data_next = (\<lambda>i. [0]), loss_d = (\<lambda>tst i x. 1) \<rparr>"

definition demo_start :: vq_state where
  "demo_start = \<lparr> solver_learning_rate = 1, calls = [] \<rparr>"

definition demo_comm :: "int \<Rightarrow> communicator" where
  "demo_comm n = \<lparr> comm_n_procs = n, comm_rank = 0 \<rparr>"

definition demo_loader :: "int \<Rightarrow> data_loader" where
  "demo_loader sz = \<lparr> dl_size = sz, dl_batch_size = 2 \<rparr>"

definition demo_trainer :: "int \<Rightarrow> int \<Rightarrow> int \<Rightarrow> trainer" where
  "demo_trainer n vn np = make_trainer n (Some vn) demo_config (demo_comm np)"

definition demo_hparams :: "int \<Rightarrow> hparams" where
  "demo_hparams n =
     \<lparr> hp_batch_size = 4, hp_text_len = 5, hp_mel_len = 6, hp_n_mels = 80, hp_r = 1,
       hp_comm = demo_comm n,
       hp_epochs_per_checkpoint = 1, hp_output_path = ''out'' \<rparr>"

definition demo_batch :: batch_values where
  "demo_batch = \<lparr> l_mel_d = 2, l_gat_d = 1, l_net_d = 3 \<rparr>"

definition demo_tts :: "int \<Rightarrow> tts_state" where
  "demo_tts n =
     \<lparr> model_training = True,
       placeholder = [''train'' \<mapsto> map_of (graph_handles (demo_hparams n) True),
                      ''valid'' \<mapsto> map_of (graph_handles (demo_hparams n) False)],
       loss_data = 12, cur_epoch = 0, tts_calls = [] \<rparr>"


definition demo_store_file :: "(nat, nat) store" where
  "demo_store_file = \<lparr> parameters = 7, solver_states = 9, cwd = [''home''],
                   fs = [[''home''] \<mapsto> Directory, [''home'', ''ck''] \<mapsto> ParamsH5 1] \<rparr>"

section \<open>Auxiliary facts\<close>

subsection \<open>Evaluation of the concrete inputs\<close>

lemma str_int_0: "str_int 0 = ''0''"
  by code_simp

lemma str_int_3: "str_int 3 = ''3''"
  by code_simp

lemmas demo_defs = demo_trainer_def make_trainer_def demo_config_def demo_comm_def
  demo_env_def demo_start_def demo_loader_def

lemmas vq_eval_defs = train_loss_at_def val_loss_at_def train_calls_at_def log_loss_def
  log_image_def emit_def epoch_png_def os_path_join_def starts_with_sep_def
  ends_with_sep_def decay_learning_rate_def set_learning_rate_def input_var_def

subsection \<open>The loops of the VQ-VAE driver in closed form\<close>

lemma calls_emit: "calls (emit cs s) = calls s @ cs"
  by (simp add: emit_def)

lemma lr_emit: "solver_learning_rate (emit cs s) = solver_learning_rate s"
  by (simp add: emit_def)

lemma emit_emit: "emit cs (emit bs s) = emit (bs @ cs) s"
  by (simp add: emit_def)

lemma emit_Nil: "emit [] s = s"
  by (simp add: emit_def)

lemma train_batch_eq:
  "train_batch t epoch env i (l, s) = (l + train_loss_at t env i, emit (train_calls_at t epoch i) s)"
  by (simp add: train_batch_def train_loss_at_def train_calls_at_def log_image_def emit_def Let_def)

lemma validate_batch_eq:
  "validate_batch t env i (l, s) =
     (l + val_loss_at t env i, emit [ValDataLoaderNext, ModelForward True] s)"
  by (simp add: validate_batch_def val_loss_at_def emit_def Let_def)

lemma fold_train_batch:
  "fold (train_batch t epoch env) xs (l, s) =
     (l + sum_list (map (train_loss_at t env) xs),
      emit (concat (map (train_calls_at t epoch) xs)) s)"
proof (induction xs arbitrary: l s)
  case Nil
  show ?case by (simp add: emit_Nil)
next
  case (Cons i xs)
  show ?case by (simp add: train_batch_eq Cons.IH emit_emit add.assoc)
qed

lemma fold_validate_batch:
  "fold (validate_batch t env) xs (l, s) =
     (l + sum_list (map (val_loss_at t env) xs),
      emit (concat (map (\<lambda>i. [ValDataLoaderNext, ModelForward True]) xs)) s)"
proof (induction xs arbitrary: l s)
  case Nil
  show ?case by (simp add: emit_Nil)
next
  case (Cons i xs)
  show ?case by (simp add: validate_batch_eq Cons.IH emit_emit add.assoc)
qed

text \<open>
  \<^verbatim>\<open>train\<close> returns whenever the worker count and the stored iteration count are not
  zero: it has run \<open>iterations_per_epoch div n_procs\<close> passes and logs their loss sum
  divided by \<open>iterations_per_epoch\<close>.
\<close>

lemma train_succeeds:
  assumes "comm_n_procs (comm t) \<noteq> 0" and "iterations_per_epoch t \<noteq> 0"
  shows "train t epoch env s =
     Inr (log_loss epoch
            (Finite (sum_list (map (train_loss_at t env)
                        [0..<nat (iterations_per_epoch t div comm_n_procs (comm t))])
                     / real_of_int (iterations_per_epoch t))) True
            (emit (concat (map (train_calls_at t epoch)
                        [0..<nat (iterations_per_epoch t div comm_n_procs (comm t))]))
               (decay_learning_rate t epoch s)))"
  using assms by (simp add: train_def fold_train_batch epoch_average_def Let_def)

lemma train_InrD:
  assumes "train t epoch env s = Inr s'"
  shows "\<exists>v. s' = log_loss epoch v True
            (emit (concat (map (train_calls_at t epoch)
                        [0..<nat (iterations_per_epoch t div comm_n_procs (comm t))]))
               (decay_learning_rate t epoch s))"
  using assms
  by (auto simp: train_def fold_train_batch Let_def split: if_splits sum.splits)

text \<open>
  \<^verbatim>\<open>validate\<close> returns whenever the validation count is set and positive and the
  training count is not zero; the divisor is the training count.
\<close>

lemma validate_succeeds:
  assumes "val_iterations_per_epoch t = Some v" and "0 < v" and "iterations_per_epoch t \<noteq> 0"
  shows "validate t epoch env s =
     Inr (log_image t epoch False
           (log_loss epoch
              (Finite (sum_list (map (val_loss_at t env) [0..<nat v])
                       / real_of_int (iterations_per_epoch t))) False
              (emit (concat (map (\<lambda>i. [ValDataLoaderNext, ModelForward True]) [0..<nat v])) s)))"
  using assms by (simp add: validate_def fold_validate_batch epoch_average_def Let_def)

lemma lr_log_loss: "solver_learning_rate (log_loss e v b s) = solver_learning_rate s"
  by (simp add: log_loss_def emit_def)

lemma lr_log_image: "solver_learning_rate (log_image t e b s) = solver_learning_rate s"
  by (simp add: log_image_def emit_def)

lemma lr_decay:
  "solver_learning_rate (decay_learning_rate t epoch s) =
     (if epoch \<in> set (learning_rate_decay_epochs t)
      then solver_learning_rate s * learning_rate_decay_factor t
      else solver_learning_rate s)"
  by (simp add: decay_learning_rate_def set_learning_rate_def emit_def)

lemma rescale_unit: "0 \<le> x \<Longrightarrow> x \<le> 1 \<Longrightarrow> in_signed_unit (rescale x)"
  by (simp add: in_signed_unit_def rescale_def field_simps)

subsection \<open>Steps that may raise\<close>

lemma bind_err_Inr: "bind_err r f = Inr y \<longleftrightarrow> (\<exists>x. r = Inr x \<and> f x = Inr y)"
  by (cases r) (simp_all add: bind_err_def)

lemma bind_err_Inr_eq: "bind_err (Inr x) f = f x"
  by (simp add: bind_err_def)

lemma lookup_Inr: "lookup m k = Inr v \<longleftrightarrow> m k = Some v"
  by (simp add: lookup_def split: option.splits)

subsection \<open>Paths of a checkpoint\<close>







subsection \<open>Walking the directory tree\<close>












subsection \<open>Creating the directories\<close>





subsection \<open>Saving and loading\<close>






subsection \<open>The checkpoint of the concrete store\<close>

lemma demo_checkpoint_dir: "checkpoint_dir ''ck'' 3 = ''ck/epoch_3''"
  by (simp add: checkpoint_dir_def os_path_join_def starts_with_sep_def ends_with_sep_def str_int_3)



text \<open>
  With a regular file in the place of the base directory, or with a base path below a
  file written before, nothing is saved.
\<close>

lemma save_checkpoint_under_file_raises:
  "save_checkpoint ''ck'' 3 demo_store_file = Inl OSError"
  by (simp add: save_checkpoint_def Let_def demo_checkpoint_dir makedirs_exist_ok_def
      start_dir_def starts_with_sep_def demo_store_file_def is_dir_def bind_err_def)

subsection \<open>The Tacotron2 batch steps in closed form\<close>

lemma tts_calls_emit: "tts_calls (tts_emit cs s) = tts_calls s @ cs"
  by (simp add: tts_emit_def)

lemma handles_keys:
  "map fst (graph_handles hp tr) =
     [''x_mel'', ''x_gat'', ''x_txt'', ''o_mel'', ''o_mel_p'', ''o_gat'', ''o_att'',
      ''l_mel'', ''l_gat'', ''l_net'']"
  by (simp add: graph_handles_def Let_def)

lemma handles_dom:
  "dom (map_of (graph_handles hp tr)) =
     {''x_txt'', ''x_mel'', ''x_gat'', ''o_mel'', ''o_mel_p'', ''o_gat'', ''o_att'',
      ''l_mel'', ''l_gat'', ''l_net''}"
proof -
  have "dom (map_of (graph_handles hp tr)) = set (map fst (graph_handles hp tr))"
    by (simp add: dom_map_of_conv_image_fst)
  then show ?thesis
    unfolding handles_keys by auto
qed

lemma handles_lookup:
  assumes "k \<in> {''x_txt'', ''x_mel'', ''x_gat'', ''o_mel'', ''o_mel_p'', ''o_gat'', ''o_att'',
      ''l_mel'', ''l_gat'', ''l_net''}"
  shows "\<exists>v. lookup (map_of (graph_handles hp tr)) k = Inr v"
proof -
  from assms have "k \<in> dom (map_of (graph_handles hp tr))"
    unfolding handles_dom .
  then show ?thesis by (auto simp: lookup_Inr)
qed

lemma train_on_batch_InrD:
  assumes "train_on_batch hp b s = Inr s'"
  shows "\<exists>l_net. s' = tts_emit (train_on_batch_calls hp b l_net) s"
  using assms
  unfolding train_on_batch_def bind_err_Inr train_on_batch_calls_def
  by blast

lemma train_on_batch_built:
  assumes "placeholder s ''train'' = Some (map_of (graph_handles hp' tr))"
  shows "\<exists>l_net. train_on_batch hp b s = Inr (tts_emit (train_on_batch_calls hp b l_net) s)"
proof -
  have p: "lookup (placeholder s) ''train'' = Inr (map_of (graph_handles hp' tr))"
    using assms by (simp add: lookup_Inr)
  obtain a where a: "lookup (map_of (graph_handles hp' tr)) ''x_mel'' = Inr a"
    using handles_lookup [of "''x_mel''"] by auto
  obtain b' where b: "lookup (map_of (graph_handles hp' tr)) ''x_txt'' = Inr b'"
    using handles_lookup [of "''x_txt''"] by auto
  obtain c where c: "lookup (map_of (graph_handles hp' tr)) ''x_gat'' = Inr c"
    using handles_lookup [of "''x_gat''"] by auto
  obtain d where d: "lookup (map_of (graph_handles hp' tr)) ''l_net'' = Inr d"
    using handles_lookup [of "''l_net''"] by auto
  obtain e where e: "lookup (map_of (graph_handles hp' tr)) ''l_mel'' = Inr e"
    using handles_lookup [of "''l_mel''"] by auto
  obtain f where f: "lookup (map_of (graph_handles hp' tr)) ''l_gat'' = Inr f"
    using handles_lookup [of "''l_gat''"] by auto
  have "train_on_batch hp b s = Inr (tts_emit (train_on_batch_calls hp b d) s)"
    by (simp add: train_on_batch_def p a b c d e f bind_err_Inr_eq train_on_batch_calls_def)
  then show ?thesis ..
qed

lemma valid_on_batch_InrD:
  assumes "valid_on_batch hp b s = Inr s'"
  shows "\<exists>l_net. s' = tts_emit
             ((if multi_worker hp then [StreamSynchronize] else [])
              @ [DataNext ''valid'', Forward l_net,
                 MonitorUpdate ''valid/l_mel'' (l_mel_d b) (hp_batch_size hp),
                 MonitorUpdate ''valid/l_gat'' (l_gat_d b) (hp_batch_size hp),
                 MonitorUpdate ''valid/l_net'' (l_net_d b) (hp_batch_size hp)])
             (s\<lparr>loss_data := loss_data s + l_net_d b * real_of_int (hp_batch_size hp)\<rparr>)"
  using assms
  unfolding valid_on_batch_def bind_err_Inr
  by blast

lemma valid_on_batch_built:
  assumes "placeholder s ''valid'' = Some (map_of (graph_handles hp' tr))"
  shows "\<exists>s'. valid_on_batch hp b s = Inr s'"
proof -
  have p: "lookup (placeholder s) ''valid'' = Inr (map_of (graph_handles hp' tr))"
    using assms by (simp add: lookup_Inr)
  obtain a where a: "lookup (map_of (graph_handles hp' tr)) ''x_mel'' = Inr a"
    using handles_lookup [of "''x_mel''"] by auto
  obtain b' where b: "lookup (map_of (graph_handles hp' tr)) ''x_txt'' = Inr b'"
    using handles_lookup [of "''x_txt''"] by auto
  obtain c where c: "lookup (map_of (graph_handles hp' tr)) ''x_gat'' = Inr c"
    using handles_lookup [of "''x_gat''"] by auto
  obtain d where d: "lookup (map_of (graph_handles hp' tr)) ''l_net'' = Inr d"
    using handles_lookup [of "''l_net''"] by auto
  obtain e where e: "lookup (map_of (graph_handles hp' tr)) ''l_mel'' = Inr e"
    using handles_lookup [of "''l_mel''"] by auto
  obtain f where f: "lookup (map_of (graph_handles hp' tr)) ''l_gat'' = Inr f"
    using handles_lookup [of "''l_gat''"] by auto
  show ?thesis
    by (simp add: valid_on_batch_def p a b c d e f bind_err_Inr_eq)
qed

lemma write_outputs_InrD:
  assumes "write_outputs hp v s = Inr s'"
  shows "\<exists>rest. s' = tts_emit (MonitorInfo v # rest) s
           \<and> filter tts_writes_state rest = []"
proof -
  from assms obtain p where
    r: "(let s1 = tts_emit [MonitorInfo v] s
       in if hp_epochs_per_checkpoint hp = 0 then Inl ZeroDivisionError
          else if cur_epoch s mod hp_epochs_per_checkpoint hp = 0 then
            bind_err (lookup p ''o_att'') (\<lambda>o_att.
            bind_err (lookup p ''o_mel'') (\<lambda>o_mel.
              Inr (tts_emit
                    [MkdirEpochOutput (cur_epoch s),
                     Forward o_att, SaveFigure (cur_epoch s) ''o_att.png'',
                     Forward o_mel, SaveFigure (cur_epoch s) ''o_mel.png'',
                     ModelSaveParameters (cur_epoch s)] s1)))
          else Inr s1) = Inr s'"
    unfolding write_outputs_def bind_err_Inr by blast
  show ?thesis
  proof (cases "cur_epoch s mod hp_epochs_per_checkpoint hp = 0")
    case True
    with r obtain a b where
      "s' = tts_emit
                    [MkdirEpochOutput (cur_epoch s),
                     Forward a, SaveFigure (cur_epoch s) ''o_att.png'',
                     Forward b, SaveFigure (cur_epoch s) ''o_mel.png'',
                     ModelSaveParameters (cur_epoch s)] (tts_emit [MonitorInfo v] s)"
      by (auto simp: Let_def bind_err_Inr split: if_splits)
    then show ?thesis
      by (auto simp: tts_emit_def tts_writes_state_def)
  next
    case False
    with r have "s' = tts_emit [MonitorInfo v] s"
      by (auto simp: Let_def split: if_splits)
    then show ?thesis by auto
  qed
qed

lemma callback_InrD:
  assumes "callback_on_epoch_end hp valid_dl peers s = Inr s'"
  shows "\<exists>rest. s' = (tts_emit rest (reduce_loss hp peers s))\<lparr>loss_data := 0\<rparr>
           \<and> filter tts_writes_state rest = []
           \<and> (if comm_rank (hp_comm hp) = 0
               then \<exists>more. rest = MonitorInfo (array_div (loss_data (reduce_loss hp peers s)) (dl_size valid_dl)) # more
               else rest = [])"
proof (cases "comm_rank (hp_comm hp) = 0")
  case True
  with assms obtain s2 where
    w: "write_outputs hp (array_div (loss_data (reduce_loss hp peers s)) (dl_size valid_dl))
          (reduce_loss hp peers s) = Inr s2" and s': "s' = s2\<lparr>loss_data := 0\<rparr>"
    by (auto simp: callback_on_epoch_end_def Let_def bind_err_Inr)
  from write_outputs_InrD [OF w] obtain more where
    m: "s2 = tts_emit (MonitorInfo (array_div (loss_data (reduce_loss hp peers s)) (dl_size valid_dl)) # more)
               (reduce_loss hp peers s)"
    and f: "filter tts_writes_state more = []" by blast
  let ?rest = "MonitorInfo (array_div (loss_data (reduce_loss hp peers s)) (dl_size valid_dl)) # more"
  have "s' = (tts_emit ?rest (reduce_loss hp peers s))\<lparr>loss_data := 0\<rparr>"
    using s' m by simp
  moreover have "filter tts_writes_state ?rest = []"
    using f by (simp add: tts_writes_state_def)
  ultimately show ?thesis
    using True by (intro exI [of _ ?rest]) simp
next
  case False
  with assms have "s' = (reduce_loss hp peers s)\<lparr>loss_data := 0\<rparr>"
    by (auto simp: callback_on_epoch_end_def Let_def bind_err_Inr)
  with False show ?thesis by (auto simp: tts_emit_def)
qed

lemma callback_other_rank:
  "comm_rank (hp_comm hp) \<noteq> 0 \<Longrightarrow>
     callback_on_epoch_end hp valid_dl peers s = Inr ((reduce_loss hp peers s)\<lparr>loss_data := 0\<rparr>)"
  by (simp add: callback_on_epoch_end_def Let_def bind_err_def)

lemma placeholder_reduce_loss: "placeholder (reduce_loss hp peers s) = placeholder s"
  by (simp add: reduce_loss_def tts_emit_def)

lemma cur_epoch_reduce_loss: "cur_epoch (reduce_loss hp peers s) = cur_epoch s"
  by (simp add: reduce_loss_def tts_emit_def)

lemma callback_rank0_built:
  assumes "placeholder s ''train'' = Some (map_of (graph_handles hp' tr))"
    and "hp_epochs_per_checkpoint hp \<noteq> 0"
  shows "\<exists>s'. callback_on_epoch_end hp valid_dl peers s = Inr s'"
proof (cases "comm_rank (hp_comm hp) = 0")
  case False
  then show ?thesis by (simp add: callback_other_rank)
next
  case True
  have p: "lookup (placeholder (reduce_loss hp peers s)) ''train'' = Inr (map_of (graph_handles hp' tr))"
    using assms(1) by (simp add: lookup_Inr placeholder_reduce_loss)
  obtain a where a: "lookup (map_of (graph_handles hp' tr)) ''o_att'' = Inr a"
    using handles_lookup [of "''o_att''"] by auto
  obtain b where b: "lookup (map_of (graph_handles hp' tr)) ''o_mel'' = Inr b"
    using handles_lookup [of "''o_mel''"] by auto
  have "\<exists>s2. write_outputs hp v (reduce_loss hp peers s) = Inr s2" for v
    using assms(2) by (simp add: write_outputs_def p a b bind_err_Inr_eq Let_def)
  then obtain s2 where
    "write_outputs hp (array_div (loss_data (reduce_loss hp peers s)) (dl_size valid_dl))
       (reduce_loss hp peers s) = Inr s2" by blast
  then show ?thesis
    using True by (simp add: callback_on_epoch_end_def Let_def bind_err_def)
qed

subsection \<open>Calls of the validation and training steps\<close>

lemma demo_tts_train:
  "placeholder (demo_tts n) ''train'' = Some (map_of (graph_handles (demo_hparams n) True))"
  by (simp add: demo_tts_def)

lemma demo_tts_valid:
  "placeholder (demo_tts n) ''valid'' = Some (map_of (graph_handles (demo_hparams n) False))"
  by (simp add: demo_tts_def)

lemma demo_multi_worker: "multi_worker (demo_hparams n) = (1 < n)"
  by (simp add: multi_worker_def demo_hparams_def demo_comm_def)

lemma validate_InrD:
  assumes "validate t epoch env s = Inr s'"
  shows "\<exists>v n. s' = log_image t epoch False (log_loss epoch v False
            (emit (concat (map (\<lambda>i. [ValDataLoaderNext, ModelForward True]) [0..<n])) s))"
  using assms
  by (auto simp: validate_def fold_validate_batch Let_def split: option.splits sum.splits if_splits)

lemma filter_writes_validation_calls:
  "filter vq_writes_state (concat (map (\<lambda>i. [ValDataLoaderNext, ModelForward True]) xs)) = []"
  by (induction xs) (simp_all add: vq_writes_state_def)

lemma train_calls_reduce_update:
  "filter vq_reduce_or_update (train_calls_at t epoch i) = [CommAllReduceGrads False True, SolverUpdate]"
  by (simp add: train_calls_at_def vq_reduce_or_update_def vq_grad_reduce_def)

lemma tts_train_calls_reduce_update:
  "filter tts_reduce_or_update (train_on_batch_calls hp b l) =
     (if multi_worker hp then [CommAllReduceTrainerGrads True False] else []) @ [OptimizerUpdate]"
  by (simp add: train_on_batch_calls_def tts_reduce_or_update_def tts_grad_reduce_def)

lemma tts_train_calls_reduce:
  "filter tts_grad_reduce (train_on_batch_calls hp b l) =
     (if multi_worker hp then [CommAllReduceTrainerGrads True False] else [])"
  by (simp add: train_on_batch_calls_def tts_grad_reduce_def)

lemma tts_train_calls_update:
  "count_list (train_on_batch_calls hp b l) OptimizerUpdate = 1"
  by (simp add: train_on_batch_calls_def)

section \<open>The claims\<close>

subsection \<open>Epoch loss and iteration count of the VQ-VAE driver\<close>

text \<open>
  Claim C1 says that the epoch loss reported by \<^verbatim>\<open>train\<close> is the arithmetic mean of the
  per-batch losses, the divisor being the number of passes the loop made. The code
  divides by \<^verbatim>\<open>iterations_per_epoch\<close> but loops
  \<^verbatim>\<open>iterations_per_epoch // n_procs\<close> times. With 8 samples, batch size 2 and 2
  workers the constructor stores 2, the loop makes one pass with batch loss 1, and the
  value logged is 1/2, while the mean of the one batch loss is 1.
\<close>

theorem train_average_divisor_mismatch:
  "VQVAEtrainer_init (demo_loader 8) (demo_loader 4) demo_config (demo_comm 2)
     = Inr (demo_trainer 2 1 2)
   \<and> train (demo_trainer 2 1 2) 0 demo_env demo_start =
       Inr \<lparr> solver_learning_rate = 1,
             calls = [DataLoaderNext, ModelForward False, SaveImage ''m/tr/epoch_0.png'',
                      SolverSetParameters, SolverZeroGrad, LossBackward,
                      CommAllReduceGrads False True, SolverWeightDecay 0, SolverUpdate,
                      MonitorTrainLossAdd 0 (Finite (1 / 2))] \<rparr>
   \<and> arithmetic_mean [train_loss_at (demo_trainer 2 1 2) demo_env 0] = 1"
proof -
  have "VQVAEtrainer_init (demo_loader 8) (demo_loader 4) demo_config (demo_comm 2)
          = Inr (demo_trainer 2 1 2)"
    by (simp add: VQVAEtrainer_init_def count_iterations_def demo_defs)
  moreover have "train (demo_trainer 2 1 2) 0 demo_env demo_start =
       Inr \<lparr> solver_learning_rate = 1,
             calls = [DataLoaderNext, ModelForward False, SaveImage ''m/tr/epoch_0.png'',
                      SolverSetParameters, SolverZeroGrad, LossBackward,
                      CommAllReduceGrads False True, SolverWeightDecay 0, SolverUpdate,
                      MonitorTrainLossAdd 0 (Finite (1 / 2))] \<rparr>"
    by (simp add: train_succeeds demo_defs vq_eval_defs str_int_0)
  moreover have "arithmetic_mean [train_loss_at (demo_trainer 2 1 2) demo_env 0] = 1"
    by (simp add: arithmetic_mean_def train_loss_at_def demo_defs)
  ultimately show ?thesis by simp
qed

text \<open>
  Claim C2 says that \<^verbatim>\<open>train\<close> makes exactly ceil(size / batch size / workers) passes
  through its loop. With 20 samples, batch size 2 and 3 workers that number is 4 and is
  what the constructor stores, but the loop bound divides it by the worker count once
  more: the epoch makes a single pass (one fetch, one backward pass, one update).
\<close>

theorem train_iterations_divided_twice:
  "count_iterations 20 2 3 = Inr 4
   \<and> VQVAEtrainer_init (demo_loader 20) (demo_loader 4) demo_config (demo_comm 3)
       = Inr (demo_trainer 4 1 3)
   \<and> train (demo_trainer 4 1 3) 0 demo_env demo_start =
       Inr \<lparr> solver_learning_rate = 1,
             calls = [DataLoaderNext, ModelForward False, SaveImage ''m/tr/epoch_0.png'',
                      SolverSetParameters, SolverZeroGrad, LossBackward,
                      CommAllReduceGrads False True, SolverWeightDecay 0, SolverUpdate,
                      MonitorTrainLossAdd 0 (Finite (1 / 4))] \<rparr>"
proof -
  have c: "count_iterations 20 2 3 = Inr 4"
    by (simp add: count_iterations_def)
  have "count_iterations 4 2 3 = Inr 1"
    by (simp add: count_iterations_def)
  then have "VQVAEtrainer_init (demo_loader 20) (demo_loader 4) demo_config (demo_comm 3)
               = Inr (demo_trainer 4 1 3)"
    using c by (simp add: VQVAEtrainer_init_def demo_defs)
  moreover have "train (demo_trainer 4 1 3) 0 demo_env demo_start =
       Inr \<lparr> solver_learning_rate = 1,
             calls = [DataLoaderNext, ModelForward False, SaveImage ''m/tr/epoch_0.png'',
                      SolverSetParameters, SolverZeroGrad, LossBackward,
                      CommAllReduceGrads False True, SolverWeightDecay 0, SolverUpdate,
                      MonitorTrainLossAdd 0 (Finite (1 / 4))] \<rparr>"
    by (simp add: train_succeeds demo_defs vq_eval_defs str_int_0)
  ultimately show ?thesis using c by simp
qed

text \<open>
  Claim C3 says that \<^verbatim>\<open>validate\<close> reports the sum of the validation batch losses
  divided by the number of validation passes. The code divides by the training count
  \<^verbatim>\<open>iterations_per_epoch\<close>. With 8 training and 4 validation samples, batch size 2 and
  one worker the counts are 4 and 2: validation makes two passes with loss 1 each and
  logs 2/4, while the mean of the two losses is 1.
\<close>

theorem validate_divides_by_training_count:
  "VQVAEtrainer_init (demo_loader 8) (demo_loader 4) demo_config (demo_comm 1)
     = Inr (demo_trainer 4 2 1)
   \<and> validate (demo_trainer 4 2 1) 3 demo_env demo_start =
       Inr \<lparr> solver_learning_rate = 1,
             calls = [ValDataLoaderNext, ModelForward True, ValDataLoaderNext, ModelForward True,
                      MonitorValLossAdd 3 (Finite (1 / 2)), SaveImage ''m/va/epoch_3.png''] \<rparr>
   \<and> arithmetic_mean (map (val_loss_at (demo_trainer 4 2 1) demo_env) [0, 1]) = 1"
proof -
  have "VQVAEtrainer_init (demo_loader 8) (demo_loader 4) demo_config (demo_comm 1)
          = Inr (demo_trainer 4 2 1)"
    by (simp add: VQVAEtrainer_init_def count_iterations_def demo_defs)
  moreover have "validate (demo_trainer 4 2 1) 3 demo_env demo_start =
       Inr \<lparr> solver_learning_rate = 1,
             calls = [ValDataLoaderNext, ModelForward True, ValDataLoaderNext, ModelForward True,
                      MonitorValLossAdd 3 (Finite (1 / 2)), SaveImage ''m/va/epoch_3.png''] \<rparr>"
  proof -
    have v: "val_iterations_per_epoch (demo_trainer 4 2 1) = Some 2" "0 < (2::int)"
      "iterations_per_epoch (demo_trainer 4 2 1) \<noteq> 0"
      by (simp_all add: demo_defs)
    have u: "[0..<nat 2] = [0, 1]" by (simp add: upt_rec)
    show ?thesis
      unfolding validate_succeeds [OF v] u
      by (simp add: demo_defs vq_eval_defs str_int_3)
  qed
  moreover have "arithmetic_mean (map (val_loss_at (demo_trainer 4 2 1) demo_env) [0, 1]) = 1"
    by (simp add: arithmetic_mean_def val_loss_at_def demo_defs)
  ultimately show ?thesis by simp
qed

subsection \<open>Input normalisation\<close>

text \<open>
  Claim C6, as amended: \<^verbatim>\<open>convert_to_var\<close> maps a batch whose values are all strictly
  below 1 to \<open>(x - 0.5) / 0.5\<close>, and a batch with some value of 1 or more to the same
  rescaling of \<open>x / 255\<close>; either way a batch with values between 0 and 255 lands
  between -1 and 1.
\<close>

theorem convert_to_var_branches:
  "(list_all below_one img \<longrightarrow> convert_to_var img = map rescale img)
   \<and> (\<not> list_all below_one img \<longrightarrow> convert_to_var img = map rescale (map div255 img))
   \<and> (list_all in_byte_range img \<longrightarrow> list_all in_signed_unit (convert_to_var img))"
proof -
  have a: "list_all in_byte_range img \<Longrightarrow> list_all below_one img \<Longrightarrow>
        list_all in_signed_unit (map rescale img)"
    by (induction img) (auto simp: in_byte_range_def below_one_def intro: rescale_unit)
  have b: "list_all in_byte_range img \<Longrightarrow> list_all in_signed_unit (map rescale (map div255 img))"
    by (induction img) (auto simp: in_byte_range_def div255_def intro!: rescale_unit)
  show ?thesis
    using a b by (auto simp: convert_to_var_def)
qed

theorem convert_to_var_branches_witness:
  "list_all below_one [0, 1 / 2] \<and> convert_to_var [0, 1 / 2] = [- 1, 0]
   \<and> \<not> list_all below_one [0, 255, 51] \<and> convert_to_var [0, 255, 51] = [- 1, 1, - 3 / 5]
   \<and> list_all in_byte_range [0, 255, 51] \<and> list_all in_signed_unit (convert_to_var [0, 255, 51])"
  using convert_to_var_branches [of "[0, 1 / 2]"] convert_to_var_branches [of "[0, 255, 51]"]
  by (simp add: below_one_def rescale_def div255_def in_byte_range_def in_signed_unit_def)

text \<open>
  The claim as written fails for a normalised batch that holds the value 1: the test
  \<^verbatim>\<open>np.all(img < 1)\<close> is false, so the batch is divided by 255 first and 1 is sent to
  -253/255, not to 1.
\<close>

theorem convert_to_var_unit_value_counterexample:
  "list_all in_unit_interval [1] \<and> convert_to_var [1] = [- 253 / 255] \<and> map rescale [1] = [1]"
  by (simp add: in_unit_interval_def convert_to_var_def below_one_def div255_def rescale_def)

subsection \<open>Learning-rate decay\<close>

text \<open>
  Claim C7: an epoch of \<^verbatim>\<open>train\<close> multiplies the solver's learning rate by the decay
  factor when the epoch is in the configured list of decay epochs, and leaves it as it
  was otherwise. The epoch returns whenever the worker count and the stored iteration
  count are not zero.
\<close>

theorem train_learning_rate_decay:
  "(train t epoch env s = Inr s' \<longrightarrow>
      solver_learning_rate s' =
        (if epoch \<in> set (learning_rate_decay_epochs t)
         then solver_learning_rate s * learning_rate_decay_factor t
         else solver_learning_rate s))
   \<and> (comm_n_procs (comm t) \<noteq> 0 \<and> iterations_per_epoch t \<noteq> 0 \<longrightarrow>
        (\<exists>s''. train t epoch env s = Inr s''))"
proof (intro conjI impI)
  assume r: "train t epoch env s = Inr s'"
  from train_InrD [OF r] obtain v where
    "s' = log_loss epoch v True
            (emit (concat (map (train_calls_at t epoch)
                        [0..<nat (iterations_per_epoch t div comm_n_procs (comm t))]))
               (decay_learning_rate t epoch s))" by blast
  then show "solver_learning_rate s' =
        (if epoch \<in> set (learning_rate_decay_epochs t)
         then solver_learning_rate s * learning_rate_decay_factor t
         else solver_learning_rate s)"
    by (simp add: lr_log_loss lr_emit lr_decay)
next
  assume "comm_n_procs (comm t) \<noteq> 0 \<and> iterations_per_epoch t \<noteq> 0"
  then show "\<exists>s''. train t epoch env s = Inr s''"
    by (simp add: train_succeeds)
qed

theorem train_learning_rate_decay_witness:
  "(\<exists>s'. train (demo_trainer 4 2 1) 2 demo_env demo_start = Inr s'
          \<and> solver_learning_rate s' = 1 / 2)
   \<and> (\<exists>s'. train (demo_trainer 4 2 1) 3 demo_env demo_start = Inr s'
          \<and> solver_learning_rate s' = 1)"
proof -
  have ok: "comm_n_procs (comm (demo_trainer 4 2 1)) \<noteq> 0 \<and> iterations_per_epoch (demo_trainer 4 2 1) \<noteq> 0"
    by (simp add: demo_defs)
  obtain a where a: "train (demo_trainer 4 2 1) 2 demo_env demo_start = Inr a"
    using train_learning_rate_decay [of "demo_trainer 4 2 1" 2 demo_env demo_start] ok by blast
  obtain b where b: "train (demo_trainer 4 2 1) 3 demo_env demo_start = Inr b"
    using train_learning_rate_decay [of "demo_trainer 4 2 1" 3 demo_env demo_start] ok by blast
  have "solver_learning_rate a = 1 / 2"
    using train_learning_rate_decay [of "demo_trainer 4 2 1" 2 demo_env demo_start a] a
    by (simp add: demo_defs)
  moreover have "solver_learning_rate b = 1"
    using train_learning_rate_decay [of "demo_trainer 4 2 1" 3 demo_env demo_start b] b
    by (simp add: demo_defs)
  ultimately show ?thesis using a b by simp
qed

subsection \<open>Checkpoint round trip\<close>



subsection \<open>Gradient reduction and optimizer update\<close>

text \<open>
  Claim C4, as amended: in multi-worker mode every training batch of either driver makes
  exactly one all-reduce of the parameter gradients, before its one optimizer update. The
  VQ-VAE driver reduces every parameter gradient with \<^verbatim>\<open>division=False\<close>, a sum; the
  Tacotron2 driver reduces the trainer's gradient list with \<^verbatim>\<open>division=True\<close>, an
  average. A Tacotron2 training batch returns once \<^verbatim>\<open>update_graph\<close> has bound the
  training graph.
\<close>

theorem gradient_reduction_before_update:
  "(\<exists>cs. calls (snd (train_batch t epoch env i (l, s))) = calls s @ cs
        \<and> filter vq_reduce_or_update cs = [CommAllReduceGrads False True, SolverUpdate])
   \<and> (multi_worker hp \<and> train_on_batch hp b u = Inr u' \<longrightarrow>
        (\<exists>cs. tts_calls u' = tts_calls u @ cs
           \<and> filter tts_reduce_or_update cs
               = [CommAllReduceTrainerGrads True False, OptimizerUpdate]))
   \<and> (placeholder u ''train'' = Some (map_of (graph_handles hp0 tr)) \<longrightarrow>
        (\<exists>u''. train_on_batch hp b u = Inr u''))"
proof (intro conjI impI)
  have "calls (snd (train_batch t epoch env i (l, s))) = calls s @ train_calls_at t epoch i"
    by (simp add: train_batch_eq calls_emit)
  then show "\<exists>cs. calls (snd (train_batch t epoch env i (l, s))) = calls s @ cs
        \<and> filter vq_reduce_or_update cs = [CommAllReduceGrads False True, SolverUpdate]"
    using train_calls_reduce_update by blast
next
  assume a: "multi_worker hp \<and> train_on_batch hp b u = Inr u'"
  with train_on_batch_InrD obtain l_net where
    "u' = tts_emit (train_on_batch_calls hp b l_net) u" by blast
  then have "tts_calls u' = tts_calls u @ train_on_batch_calls hp b l_net"
    by (simp add: tts_calls_emit)
  moreover have "filter tts_reduce_or_update (train_on_batch_calls hp b l_net)
      = [CommAllReduceTrainerGrads True False, OptimizerUpdate]"
    using a by (simp add: tts_train_calls_reduce_update)
  ultimately show "\<exists>cs. tts_calls u' = tts_calls u @ cs
           \<and> filter tts_reduce_or_update cs
               = [CommAllReduceTrainerGrads True False, OptimizerUpdate]"
    by blast
next
  assume "placeholder u ''train'' = Some (map_of (graph_handles hp0 tr))"
  from train_on_batch_built [OF this] show "\<exists>u''. train_on_batch hp b u = Inr u''"
    by blast
qed

theorem gradient_reduction_before_update_witness:
  "multi_worker (demo_hparams 2)
   \<and> (\<exists>u'. train_on_batch (demo_hparams 2) demo_batch (demo_tts 2) = Inr u'
          \<and> filter tts_reduce_or_update (tts_calls u')
              = [CommAllReduceTrainerGrads True False, OptimizerUpdate])
   \<and> filter vq_reduce_or_update (calls (snd (train_batch (demo_trainer 4 2 2) 0 demo_env 0 (0, demo_start))))
       = [CommAllReduceGrads False True, SolverUpdate]"
proof -
  have m: "multi_worker (demo_hparams 2)" by (simp add: demo_multi_worker)
  note g = gradient_reduction_before_update [of "demo_trainer 4 2 2" 0 demo_env 0 0 demo_start
      "demo_hparams 2" demo_batch "demo_tts 2" _ "demo_hparams 2" True]
  from g demo_tts_train [of 2] obtain u' where
    t: "train_on_batch (demo_hparams 2) demo_batch (demo_tts 2) = Inr u'" by blast
  have c0: "tts_calls (demo_tts 2) = []" "calls demo_start = []"
    by (simp_all add: demo_tts_def demo_start_def)
  from g [of u'] show ?thesis using m t c0 by auto
qed

text \<open>
  The claim as written says that both drivers reduce by sum. With two workers the only
  gradient all-reduce of a Tacotron2 training batch carries \<^verbatim>\<open>division=True\<close>: of the
  values 2 and 4 every worker keeps 3, where a sum would give 6.
\<close>

theorem tacotron2_gradients_averaged_counterexample:
  "multi_worker (demo_hparams 2)
   \<and> filter tts_grad_reduce (result_calls (train_on_batch (demo_hparams 2) demo_batch (demo_tts 2)))
       = [CommAllReduceTrainerGrads True False]
   \<and> all_reduce True 2 2 [4] = 3 \<and> all_reduce False 2 2 [4] = 6"
proof -
  have m: "multi_worker (demo_hparams 2)" by (simp add: demo_multi_worker)
  obtain l_net where
    t: "train_on_batch (demo_hparams 2) demo_batch (demo_tts 2)
          = Inr (tts_emit (train_on_batch_calls (demo_hparams 2) demo_batch l_net) (demo_tts 2))"
    using train_on_batch_built [OF demo_tts_train] by blast
  have "tts_calls (demo_tts 2) = []" by (simp add: demo_tts_def)
  then have "filter tts_grad_reduce (result_calls (train_on_batch (demo_hparams 2) demo_batch (demo_tts 2)))
       = [CommAllReduceTrainerGrads True False]"
    using m by (simp add: t result_calls_def tts_calls_emit tts_train_calls_reduce)
  then show ?thesis using m by (simp add: all_reduce_def)
qed

text \<open>
  Claim C5, as amended: in both drivers the validation pass (\<^verbatim>\<open>validate\<close>;
  \<^verbatim>\<open>valid_on_batch\<close> and \<^verbatim>\<open>callback_on_epoch_end\<close>) makes no backward pass, no
  gradient reduction and no optimizer update, and no other call that writes parameters,
  gradients or solver state; the learning rate, the graph bindings and the training flag
  stay as they were. A training batch makes exactly one optimizer update; it makes
  exactly one gradient reduction in the VQ-VAE driver, and in the Tacotron2 driver one
  with more than one worker and none with a single worker.
\<close>

theorem validation_writes_no_state:
  "(validate t epoch env s = Inr s' \<longrightarrow>
      filter vq_writes_state (calls s') = filter vq_writes_state (calls s)
      \<and> solver_learning_rate s' = solver_learning_rate s)
   \<and> (valid_on_batch hp b u = Inr u1 \<longrightarrow>
        filter tts_writes_state (tts_calls u1) = filter tts_writes_state (tts_calls u)
        \<and> placeholder u1 = placeholder u \<and> model_training u1 = model_training u)
   \<and> (callback_on_epoch_end hp valid_dl peers u = Inr u2 \<longrightarrow>
        filter tts_writes_state (tts_calls u2) = filter tts_writes_state (tts_calls u)
        \<and> placeholder u2 = placeholder u \<and> model_training u2 = model_training u)
   \<and> (\<exists>cs. calls (snd (train_batch t epoch env i (l, s))) = calls s @ cs
         \<and> length (filter vq_grad_reduce cs) = 1 \<and> count_list cs SolverUpdate = 1)
   \<and> (train_on_batch hp b u = Inr u3 \<longrightarrow>
        (\<exists>cs. tts_calls u3 = tts_calls u @ cs
           \<and> length (filter tts_grad_reduce cs) = (if multi_worker hp then 1 else 0)
           \<and> count_list cs OptimizerUpdate = 1))
   \<and> (placeholder u ''valid'' = Some (map_of (graph_handles hp0 tr)) \<longrightarrow>
        (\<exists>u4. valid_on_batch hp b u = Inr u4))"
proof (intro conjI impI)
  assume r: "validate t epoch env s = Inr s'"
  from validate_InrD [OF r] obtain v n where
    s': "s' = log_image t epoch False (log_loss epoch v False
            (emit (concat (map (\<lambda>i. [ValDataLoaderNext, ModelForward True]) [0..<n])) s))"
    by blast
  show "filter vq_writes_state (calls s') = filter vq_writes_state (calls s)"
    unfolding s'
    by (simp add: log_image_def log_loss_def calls_emit filter_writes_validation_calls
        vq_writes_state_def)
  show "solver_learning_rate s' = solver_learning_rate s"
    unfolding s' by (simp add: lr_log_image lr_log_loss lr_emit)
next
  assume r: "valid_on_batch hp b u = Inr u1"
  from valid_on_batch_InrD [OF r] have c:
    "filter tts_writes_state (tts_calls u1) = filter tts_writes_state (tts_calls u)
     \<and> placeholder u1 = placeholder u \<and> model_training u1 = model_training u"
    by (auto simp: tts_emit_def tts_writes_state_def)
  from c show "filter tts_writes_state (tts_calls u1) = filter tts_writes_state (tts_calls u)" ..
  from c show "placeholder u1 = placeholder u" by simp
  from c show "model_training u1 = model_training u" by simp
next
  assume r: "callback_on_epoch_end hp valid_dl peers u = Inr u2"
  from callback_InrD [OF r] obtain rest where
    u2: "u2 = (tts_emit rest (reduce_loss hp peers u))\<lparr>loss_data := 0\<rparr>"
    and rest: "filter tts_writes_state rest = []" by blast
  show "filter tts_writes_state (tts_calls u2) = filter tts_writes_state (tts_calls u)"
    unfolding u2 using rest
    by (simp add: tts_emit_def reduce_loss_def tts_writes_state_def)
  show "placeholder u2 = placeholder u"
    unfolding u2 by (simp add: tts_emit_def reduce_loss_def)
  show "model_training u2 = model_training u"
    unfolding u2 by (simp add: tts_emit_def reduce_loss_def)
next
  have "calls (snd (train_batch t epoch env i (l, s))) = calls s @ train_calls_at t epoch i"
    by (simp add: train_batch_eq calls_emit)
  moreover have "length (filter vq_grad_reduce (train_calls_at t epoch i)) = 1"
    "count_list (train_calls_at t epoch i) SolverUpdate = 1"
    by (simp_all add: train_calls_at_def vq_grad_reduce_def)
  ultimately show "\<exists>cs. calls (snd (train_batch t epoch env i (l, s))) = calls s @ cs
            \<and> length (filter vq_grad_reduce cs) = 1 \<and> count_list cs SolverUpdate = 1"
    by blast
next
  assume r: "train_on_batch hp b u = Inr u3"
  from train_on_batch_InrD [OF r] obtain l_net where
    "u3 = tts_emit (train_on_batch_calls hp b l_net) u" by blast
  then have "tts_calls u3 = tts_calls u @ train_on_batch_calls hp b l_net"
    by (simp add: tts_calls_emit)
  moreover have "length (filter tts_grad_reduce (train_on_batch_calls hp b l_net))
       = (if multi_worker hp then 1 else 0)"
    by (simp add: tts_train_calls_reduce)
  ultimately show "\<exists>cs. tts_calls u3 = tts_calls u @ cs
            \<and> length (filter tts_grad_reduce cs) = (if multi_worker hp then 1 else 0)
            \<and> count_list cs OptimizerUpdate = 1"
    using tts_train_calls_update by blast
next
  assume "placeholder u ''valid'' = Some (map_of (graph_handles hp0 tr))"
  then show "\<exists>u4. valid_on_batch hp b u = Inr u4"
    by (rule valid_on_batch_built)
qed

theorem validation_writes_no_state_witness:
  "(\<exists>s'. validate (demo_trainer 4 2 1) 3 demo_env demo_start = Inr s'
         \<and> filter vq_writes_state (calls s') = [] \<and> solver_learning_rate s' = 1)
   \<and> (\<exists>u1. valid_on_batch (demo_hparams 1) demo_batch (demo_tts 1) = Inr u1
         \<and> filter tts_writes_state (tts_calls u1) = []
         \<and> placeholder u1 = placeholder (demo_tts 1))
   \<and> (\<exists>u2. callback_on_epoch_end (demo_hparams 1) (demo_loader 4) [] (demo_tts 1) = Inr u2
         \<and> filter tts_writes_state (tts_calls u2) = [])
   \<and> (\<exists>u3. train_on_batch (demo_hparams 1) demo_batch (demo_tts 1) = Inr u3
         \<and> length (filter tts_grad_reduce (tts_calls u3)) = 0
         \<and> count_list (tts_calls u3) OptimizerUpdate = 1)"
proof -
  have v: "val_iterations_per_epoch (demo_trainer 4 2 1) = Some 2" "0 < (2::int)"
    "iterations_per_epoch (demo_trainer 4 2 1) \<noteq> 0"
    by (simp_all add: demo_defs)
  obtain s' where s': "validate (demo_trainer 4 2 1) 3 demo_env demo_start = Inr s'"
    using validate_succeeds [OF v] by blast
  obtain u1 where u1: "valid_on_batch (demo_hparams 1) demo_batch (demo_tts 1) = Inr u1"
    using valid_on_batch_built [OF demo_tts_valid] by blast
  have "hp_epochs_per_checkpoint (demo_hparams 1) \<noteq> 0" by (simp add: demo_hparams_def)
  then obtain u2 where
    u2: "callback_on_epoch_end (demo_hparams 1) (demo_loader 4) [] (demo_tts 1) = Inr u2"
    using callback_rank0_built [OF demo_tts_train] by blast
  obtain u3 where u3: "train_on_batch (demo_hparams 1) demo_batch (demo_tts 1) = Inr u3"
    using train_on_batch_built [OF demo_tts_train] by blast
  have c0: "tts_calls (demo_tts 1) = []" "calls demo_start = []"
    "solver_learning_rate demo_start = 1" "\<not> multi_worker (demo_hparams 1)"
    by (simp_all add: demo_tts_def demo_start_def demo_multi_worker)
  from validation_writes_no_state [of "demo_trainer 4 2 1" 3 demo_env demo_start s'
      "demo_hparams 1" demo_batch "demo_tts 1" u1 "demo_loader 4" "[]" u2 0 0 u3]
  show ?thesis using s' u1 u2 u3 c0 by auto
qed

text \<open>
  The claim as written says that each training batch makes exactly one gradient
  reduction. A Tacotron2 training batch on a single worker makes none, and one update.
\<close>

theorem single_worker_no_reduction_counterexample:
  "\<not> multi_worker (demo_hparams 1)
   \<and> filter tts_grad_reduce (result_calls (train_on_batch (demo_hparams 1) demo_batch (demo_tts 1))) = []
   \<and> count_list (result_calls (train_on_batch (demo_hparams 1) demo_batch (demo_tts 1))) OptimizerUpdate = 1"
proof -
  have m: "\<not> multi_worker (demo_hparams 1)" by (simp add: demo_multi_worker)
  obtain l_net where
    t: "train_on_batch (demo_hparams 1) demo_batch (demo_tts 1)
          = Inr (tts_emit (train_on_batch_calls (demo_hparams 1) demo_batch l_net) (demo_tts 1))"
    using train_on_batch_built [OF demo_tts_train] by blast
  have "tts_calls (demo_tts 1) = []" by (simp add: demo_tts_def)
  then show ?thesis
    using m by (simp add: t result_calls_def tts_calls_emit tts_train_calls_reduce tts_train_calls_update)
qed

subsection \<open>Validation loss of the Tacotron2 driver\<close>

text \<open>
  Claim C9: with more than one worker \<^verbatim>\<open>callback_on_epoch_end\<close> first all-reduces the
  accumulated validation loss with \<^verbatim>\<open>division=True\<close>, so the number then divided by
  the size of the validation set is the workers' average: rank 0 reports the sum of the
  workers' accumulators divided by the number of workers and then by the size of the
  validation set (a non-finite number for size zero). It returns with the accumulator
  reset to zero. It returns on every rank other than 0,
  and on rank 0 when \<^verbatim>\<open>epochs_per_checkpoint\<close> is not zero and the training graph is
  bound.
\<close>

theorem validation_loss_averaged_then_divided:
  "(multi_worker hp \<and> callback_on_epoch_end hp valid_dl peers s = Inr s' \<longrightarrow>
      loss_data s' = 0
      \<and> (\<exists>rest. tts_calls s' = tts_calls s @ CommAllReduceLoss True False # rest
           \<and> (if comm_rank (hp_comm hp) = 0
               then \<exists>more. rest =
                      MonitorInfo
                        (if dl_size valid_dl = 0 then NonFinite
                         else Finite (((loss_data s + sum_list peers)
                                         / real_of_int (comm_n_procs (hp_comm hp)))
                                      / real_of_int (dl_size valid_dl))) # more
               else rest = [])))
   \<and> (comm_rank (hp_comm hp) \<noteq> 0
        \<or> (hp_epochs_per_checkpoint hp \<noteq> 0
            \<and> placeholder s ''train'' = Some (map_of (graph_handles hp0 tr)))
       \<longrightarrow> (\<exists>s''. callback_on_epoch_end hp valid_dl peers s = Inr s''))"
proof (intro conjI impI)
  assume a: "multi_worker hp \<and> callback_on_epoch_end hp valid_dl peers s = Inr s'"
  with callback_InrD obtain rest where
    s': "s' = (tts_emit rest (reduce_loss hp peers s))\<lparr>loss_data := 0\<rparr>"
    and r: "if comm_rank (hp_comm hp) = 0
               then \<exists>more. rest = MonitorInfo (array_div (loss_data (reduce_loss hp peers s)) (dl_size valid_dl)) # more
               else rest = []" by blast
  have l: "loss_data (reduce_loss hp peers s)
             = (loss_data s + sum_list peers) / real_of_int (comm_n_procs (hp_comm hp))"
    using a by (simp add: reduce_loss_def tts_emit_def all_reduce_def)
  have d: "array_div x (dl_size valid_dl)
             = (if dl_size valid_dl = 0 then NonFinite
                else Finite (x / real_of_int (dl_size valid_dl)))" for x
    by (simp add: array_div_def)
  have c: "tts_calls s' = tts_calls s @ CommAllReduceLoss True False # rest"
    unfolding s' using a by (simp add: reduce_loss_def tts_emit_def)
  show "loss_data s' = 0" unfolding s' by simp
  show "\<exists>rest. tts_calls s' = tts_calls s @ CommAllReduceLoss True False # rest
           \<and> (if comm_rank (hp_comm hp) = 0
               then \<exists>more. rest =
                      MonitorInfo
                        (if dl_size valid_dl = 0 then NonFinite
                         else Finite (((loss_data s + sum_list peers)
                                         / real_of_int (comm_n_procs (hp_comm hp)))
                                      / real_of_int (dl_size valid_dl))) # more
               else rest = [])"
    using c r unfolding l d by blast
next
  assume "comm_rank (hp_comm hp) \<noteq> 0
        \<or> (hp_epochs_per_checkpoint hp \<noteq> 0
            \<and> placeholder s ''train'' = Some (map_of (graph_handles hp0 tr)))"
  then show "\<exists>s''. callback_on_epoch_end hp valid_dl peers s = Inr s''"
    using callback_other_rank callback_rank0_built by blast
qed

theorem validation_loss_averaged_then_divided_witness:
  "multi_worker (demo_hparams 2)
   \<and> (\<exists>s'. callback_on_epoch_end (demo_hparams 2) (demo_loader 8) [28] (demo_tts 2) = Inr s'
          \<and> loss_data s' = 0
          \<and> take 2 (tts_calls s') = [CommAllReduceLoss True False, MonitorInfo (Finite (5 / 2))])"
proof -
  have m: "multi_worker (demo_hparams 2)" by (simp add: demo_multi_worker)
  note g = validation_loss_averaged_then_divided [of "demo_hparams 2" "demo_loader 8" "[28]"
      "demo_tts 2" _ "demo_hparams 2" True]
  have "hp_epochs_per_checkpoint (demo_hparams 2) \<noteq> 0" by (simp add: demo_hparams_def)
  with g demo_tts_train [of 2] obtain s' where
    s': "callback_on_epoch_end (demo_hparams 2) (demo_loader 8) [28] (demo_tts 2) = Inr s'"
    by blast
  have c0: "tts_calls (demo_tts 2) = []" "loss_data (demo_tts 2) = 12"
    "comm_rank (hp_comm (demo_hparams 2)) = 0" "comm_n_procs (hp_comm (demo_hparams 2)) = 2"
    "dl_size (demo_loader 8) = 8"
    by (simp_all add: demo_tts_def demo_hparams_def demo_comm_def demo_loader_def)
  from g [of s'] show ?thesis using m s' c0 by auto
qed

subsection \<open>Graph rebinding\<close>

text \<open>
  Claim C10: \<^verbatim>\<open>update_graph\<close> raises \<^verbatim>\<open>AssertionError\<close> for every key other than
  \<^verbatim>\<open>'train'\<close> and \<^verbatim>\<open>'valid'\<close>. For these two it returns, \<^verbatim>\<open>placeholder[key]\<close> is
  a new dictionary of exactly the ten named handles that does not depend on the old
  entry, the other entries are untouched, and \<^verbatim>\<open>model.training\<close> is true exactly when
  the key is not \<^verbatim>\<open>'valid'\<close>.
\<close>

theorem update_graph_contract:
  "(key \<noteq> ''train'' \<and> key \<noteq> ''valid'' \<longrightarrow> update_graph hp key s = Inl AssertionError)
   \<and> (key = ''train'' \<or> key = ''valid'' \<longrightarrow>
        (\<exists>s'. update_graph hp key s = Inr s'
           \<and> placeholder s' key = Some (map_of (graph_handles hp (key \<noteq> ''valid'')))
           \<and> dom (map_of (graph_handles hp (key \<noteq> ''valid''))) =
               {''x_txt'', ''x_mel'', ''x_gat'', ''o_mel'', ''o_mel_p'', ''o_gat'', ''o_att'',
                ''l_mel'', ''l_gat'', ''l_net''}
           \<and> (\<forall>k. k \<noteq> key \<longrightarrow> placeholder s' k = placeholder s k)
           \<and> model_training s' = (key \<noteq> ''valid'')
           \<and> loss_data s' = loss_data s \<and> cur_epoch s' = cur_epoch s))"
proof (cases "key = ''train'' \<or> key = ''valid''")
  case False
  then show ?thesis by (simp add: update_graph_def)
next
  case True
  then have "update_graph hp key s =
      Inr (s\<lparr>model_training := (key \<noteq> ''valid''),
             placeholder := (placeholder s)(key \<mapsto> map_of (graph_handles hp (key \<noteq> ''valid'')))\<rparr>)"
    by (simp add: update_graph_def Let_def)
  then show ?thesis using True handles_dom [of hp "key \<noteq> ''valid''"] by auto
qed

theorem update_graph_contract_witness:
  "update_graph (demo_hparams 1) ''test'' (demo_tts 1) = Inl AssertionError
   \<and> (\<exists>s'. update_graph (demo_hparams 1) ''train'' (demo_tts 1) = Inr s'
          \<and> placeholder s' ''train'' = Some (map_of (graph_handles (demo_hparams 1) True))
          \<and> model_training s')
   \<and> (\<exists>s'. update_graph (demo_hparams 1) ''valid'' (demo_tts 1) = Inr s'
          \<and> placeholder s' ''valid'' = Some (map_of (graph_handles (demo_hparams 1) False))
          \<and> \<not> model_training s')"
  using update_graph_contract [of "''test''" "demo_hparams 1" "demo_tts 1"]
    update_graph_contract [of "''train''" "demo_hparams 1" "demo_tts 1"]
    update_graph_contract [of "''valid''" "demo_hparams 1" "demo_tts 1"]
  by auto

end
